theory Spec2Isabelle
  imports Complex_Main "HOL-Library.Sublist"
begin

section \<open>Python values, exceptions and text\<close>

text \<open>
  The agent (\<^verbatim>\<open>main_agent.py\<close>) works on what \<^verbatim>\<open>json.load\<close> returns and on
  Python strings; the feedback manager (\<^verbatim>\<open>feedback_manager.py\<close>) works on the cells
  of a CSV file. Both catch \<^verbatim>\<open>Exception\<close>, so every exception the code can raise is
  a value here and a function that may raise returns \<open>py_error + 'a\<close>.
  Only subclasses of \<^verbatim>\<open>Exception\<close> are modelled (a \<^verbatim>\<open>KeyboardInterrupt\<close> is not an
  input of the program). Calls of \<^verbatim>\<open>print\<close> are left out.
\<close>

datatype py_error =
    KeyError
  | TypeError
  | AttributeError
  | ValueError
  | ServiceError string

text \<open>
  A Python float is idealised as the rational it denotes (no rounding, no overflow),
  with the three values that are not numbers kept apart.
\<close>

datatype pyfloat = Finite rat | PosInf | NegInf | NaN

text \<open>
  A dict is the list of its members in the order they were written (for a technique,
  the members of the JSON object); as in \<^verbatim>\<open>json.load\<close>, the last value written for a
  key is the one a lookup finds.
\<close>

datatype pyval =
    PNone
  | PBool bool
  | PInt int
  | PFloat pyfloat
  | PStr string
  | PList "pyval list"
  | PDict "(string \<times> pyval) list"

definition then_do :: "py_error + 'a \<Rightarrow> ('a \<Rightarrow> py_error + 'b) \<Rightarrow> py_error + 'b" where
  "then_do m f = (case m of Inl e \<Rightarrow> Inl e | Inr v \<Rightarrow> f v)"

definition try_except :: "py_error + 'a \<Rightarrow> (py_error \<Rightarrow> py_error + 'a) \<Rightarrow> py_error + 'a" where
  "try_except body handler = (case body of Inl e \<Rightarrow> handler e | Inr v \<Rightarrow> Inr v)"

text \<open>
  Text is ASCII: \<^verbatim>\<open>str.lower\<close> maps \<^verbatim>\<open>A\<close>..\<^verbatim>\<open>Z\<close> to \<^verbatim>\<open>a\<close>..\<^verbatim>\<open>z\<close> and leaves every other
  character alone; \<^verbatim>\<open>str.strip\<close> removes the ASCII white space Python knows
  (codes 9 to 13, 28 to 32) from both ends.
\<close>

definition lower_char :: "char \<Rightarrow> char" where
  "lower_char c =
     (case map_of (zip ''ABCDEFGHIJKLMNOPQRSTUVWXYZ'' ''abcdefghijklmnopqrstuvwxyz'') c of
        Some l \<Rightarrow> l
      | None \<Rightarrow> c)"

definition lower :: "string \<Rightarrow> string" where
  "lower s = map lower_char s"

definition is_space :: "char \<Rightarrow> bool" where
  "is_space c = (let n = (of_char c :: nat) in (9 \<le> n \<and> n \<le> 13) \<or> (28 \<le> n \<and> n \<le> 32))"

definition strip :: "string \<Rightarrow> string" where
  "strip s = rev (dropWhile is_space (rev (dropWhile is_space s)))"

text \<open>\<^verbatim>\<open>k in text\<close> on two strings: \<open>k\<close> occurs in \<open>text\<close> as a contiguous piece.\<close>

fun str_in :: "string \<Rightarrow> string \<Rightarrow> bool" where
  "str_in k [] = (k = [])"
| "str_in k (c # cs) = (prefix k (c # cs) \<or> str_in k cs)"

text \<open>
  \<^verbatim>\<open>s.replace(old, new)\<close> for a non-empty \<open>old\<close>: every occurrence, left to right,
  without overlap. \<open>skip\<close> counts the characters of a matched occurrence still to be
  dropped.
\<close>

fun replace_from :: "string \<Rightarrow> string \<Rightarrow> nat \<Rightarrow> string \<Rightarrow> string" where
  "replace_from old new skip [] = []"
| "replace_from old new skip (c # cs) =
     (if 0 < skip then replace_from old new (skip - 1) cs
      else if prefix old (c # cs) then new @ replace_from old new (length old - 1) cs
      else c # replace_from old new 0 cs)"

definition replace :: "string \<Rightarrow> string \<Rightarrow> string \<Rightarrow> string" where
  "replace s old new = replace_from old new 0 s"

subsection \<open>Subscripting and iterating a value\<close>

text \<open>
  \<^verbatim>\<open>v[key]\<close> with a string key: a dict looks the key up (\<^verbatim>\<open>KeyError\<close> when absent);
  a string or a list wants an integer index and every other value is not subscriptable
  (\<^verbatim>\<open>TypeError\<close>).
\<close>

fun subscript :: "pyval \<Rightarrow> string \<Rightarrow> py_error + pyval" where
  "subscript (PDict kvs) key =
     (case map_of (rev kvs) key of None \<Rightarrow> Inl KeyError | Some v \<Rightarrow> Inr v)"
| "subscript v key = Inl TypeError"

text \<open>
  \<^verbatim>\<open>for x in v\<close>: the items of a list, the characters of a string, the keys of a dict;
  nothing else that JSON yields is iterable.
\<close>

fun dict_keys :: "(string \<times> pyval) list \<Rightarrow> string list" where
  "dict_keys [] = []"
| "dict_keys ((k, v) # kvs) = k # filter (\<lambda>k'. k' \<noteq> k) (dict_keys kvs)"

fun py_iter :: "pyval \<Rightarrow> py_error + pyval list" where
  "py_iter (PList xs) = Inr xs"
| "py_iter (PStr s) = Inr (map (\<lambda>c. PStr [c]) s)"
| "py_iter (PDict kvs) = Inr (map PStr (dict_keys kvs))"
| "py_iter v = Inl TypeError"

text \<open>\<^verbatim>\<open>keyword in barrier_lower\<close>: the left operand of \<^verbatim>\<open>in\<close> on a string must be a string.\<close>

fun in_text :: "pyval \<Rightarrow> string \<Rightarrow> py_error + bool" where
  "in_text (PStr k) text = Inr (str_in k text)"
| "in_text v text = Inl TypeError"

section \<open>The technique selector\<close>

text \<open>
  \<^verbatim>\<open>self.techniques\<close> is the list \<^verbatim>\<open>_load_techniques\<close> returns (``Convert JSON to Python
  list'', or \<^verbatim>\<open>[]\<close> when the file is missing); its entries are whatever the file holds.
  \<^verbatim>\<open>barrier_text\<close> and \<^verbatim>\<open>target_component\<close> are strings, so
  \<^verbatim>\<open>tech['target_component'] == target_component\<close> holds exactly when the entry's value is
  that string.
\<close>

text \<open>The inner loop \<^verbatim>\<open>for keyword in ...: if keyword in barrier_lower: return tech\<close>.\<close>

fun keyword_loop :: "pyval list \<Rightarrow> string \<Rightarrow> py_error + bool" where
  "keyword_loop [] barrier_lower = Inr False"
| "keyword_loop (keyword # rest) barrier_lower =
     (case in_text keyword barrier_lower of
        Inl e \<Rightarrow> Inl e
      | Inr found \<Rightarrow> if found then Inr True else keyword_loop rest barrier_lower)"

text \<open>The first loop over the catalogue: \<open>Some tech\<close> is its \<^verbatim>\<open>return tech\<close>.\<close>

fun keyword_pass :: "pyval list \<Rightarrow> string \<Rightarrow> string \<Rightarrow> py_error + pyval option" where
  "keyword_pass [] barrier_lower target_component = Inr None"
| "keyword_pass (tech # rest) barrier_lower target_component =
     (case subscript tech ''target_component'' of
        Inl e \<Rightarrow> Inl e
      | Inr component \<Rightarrow>
          if component = PStr target_component then
            (case subscript tech ''barrier_keywords'' of
               Inl e \<Rightarrow> Inl e
             | Inr kws \<Rightarrow>
                 (case py_iter kws of
                    Inl e \<Rightarrow> Inl e
                  | Inr keywords \<Rightarrow>
                      (case keyword_loop keywords barrier_lower of
                         Inl e \<Rightarrow> Inl e
                       | Inr found \<Rightarrow>
                           if found then Inr (Some tech)
                           else keyword_pass rest barrier_lower target_component)))
          else keyword_pass rest barrier_lower target_component)"

text \<open>The second loop: the first entry of the right component.\<close>

fun component_pass :: "pyval list \<Rightarrow> string \<Rightarrow> py_error + pyval option" where
  "component_pass [] target_component = Inr None"
| "component_pass (tech # rest) target_component =
     (case subscript tech ''target_component'' of
        Inl e \<Rightarrow> Inl e
      | Inr component \<Rightarrow>
          if component = PStr target_component then Inr (Some tech)
          else component_pass rest target_component)"

text \<open>\<^verbatim>\<open>self.techniques[0] if self.techniques else None\<close>.\<close>

fun first_or_none :: "pyval list \<Rightarrow> pyval" where
  "first_or_none [] = PNone"
| "first_or_none (tech # rest) = tech"

definition select_technique_body :: "pyval list \<Rightarrow> string \<Rightarrow> string \<Rightarrow> py_error + pyval" where
  "select_technique_body techniques barrier_text target_component =
     (let barrier_lower = lower barrier_text in
      case keyword_pass techniques barrier_lower target_component of
        Inl e \<Rightarrow> Inl e
      | Inr (Some tech) \<Rightarrow> Inr tech
      | Inr None \<Rightarrow>
          (case component_pass techniques target_component of
             Inl e \<Rightarrow> Inl e
           | Inr (Some tech) \<Rightarrow> Inr tech
           | Inr None \<Rightarrow> Inr (first_or_none techniques)))"

definition select_technique :: "pyval list \<Rightarrow> string \<Rightarrow> string \<Rightarrow> py_error + pyval" where
  "select_technique techniques barrier_text target_component =
     try_except (select_technique_body techniques barrier_text target_component)
       (\<lambda>e. Inr (first_or_none techniques))"

section \<open>The text-generation service\<close>

text \<open>
  \<^verbatim>\<open>self.model.generate_content(prompt)\<close> followed by \<^verbatim>\<open>response.text\<close> is a call
  to a service outside the program: \<open>svc i prompt\<close> is the text of the answer to the
  \<open>i\<close>-th request made so far, or the exception the request (or reading the text of a
  blocked answer) raises. The number of requests made is the only state the agent
  changes, and it is passed along.
\<close>

type_synonym service = "nat \<Rightarrow> string \<Rightarrow> py_error + string"

definition generate_content :: "service \<Rightarrow> nat \<Rightarrow> string \<Rightarrow> (py_error + string) \<times> nat" where
  "generate_content svc calls prompt = (svc calls prompt, Suc calls)"

section \<open>The barrier classifier\<close>

definition barrier_prompt :: "string \<Rightarrow> string" where
  \<open>barrier_prompt barrier_text =
     ''You are a psychology expert. Analyze this barrier:\<newline>\<newline>"''
     @ barrier_text
     @ ''"\<newline>\<newline>Which COM-B component is missing?\<newline>''
     @ ''- Capability: lack of skills, knowledge, or ability (they don't know HOW)\<newline>''
     @ ''- Opportunity: lack of time, resources, or external support (external barriers)\<newline>''
     @ ''- Motivation: lack of desire, willpower, or interest (they don't WANT to)\<newline>\<newline>''
     @ ''Respond with ONLY ONE WORD: Capability, Opportunity, or Motivation\<newline>\<newline>''
     @ ''Answer:''\<close>

text \<open>What the \<^verbatim>\<open>if\<close>/\<^verbatim>\<open>elif\<close>/\<^verbatim>\<open>else\<close> makes of the answer.\<close>

definition parse_component :: "string \<Rightarrow> string" where
  "parse_component text =
     (let component = lower (strip text) in
      if str_in ''capab'' component then ''capability''
      else if str_in ''opportun'' component then ''opportunity''
      else ''motivation'')"

definition analyze_barrier_body :: "service \<Rightarrow> nat \<Rightarrow> string \<Rightarrow> (py_error + string) \<times> nat" where
  "analyze_barrier_body svc calls barrier_text =
     (case generate_content svc calls (barrier_prompt barrier_text) of
        (response, calls') \<Rightarrow> (then_do response (\<lambda>text. Inr (parse_component text)), calls'))"

definition analyze_barrier :: "service \<Rightarrow> nat \<Rightarrow> string \<Rightarrow> (py_error + string) \<times> nat" where
  "analyze_barrier svc calls barrier_text =
     (case analyze_barrier_body svc calls barrier_text of
        (outcome, calls') \<Rightarrow> (try_except outcome (\<lambda>e. Inr ''motivation''), calls'))"

section \<open>The intervention generator\<close>

text \<open>
  \<^verbatim>\<open>x.replace('[GOAL]', user_goal)\<close>: only a string has the method.
  An f-string renders a string as it is; what \<^verbatim>\<open>str\<close> makes of any other value is
  the parameter \<open>render\<close>.
\<close>

fun str_replace :: "pyval \<Rightarrow> string \<Rightarrow> string \<Rightarrow> py_error + string" where
  "str_replace (PStr s) old new = Inr (replace s old new)"
| "str_replace v old new = Inl AttributeError"

fun py_str :: "(pyval \<Rightarrow> string) \<Rightarrow> pyval \<Rightarrow> string" where
  "py_str render (PStr s) = s"
| "py_str render v = render v"

definition intervention_prompt :: "string \<Rightarrow> string \<Rightarrow> string \<Rightarrow> string \<Rightarrow> string \<Rightarrow> string" where
  \<open>intervention_prompt user_goal barrier_text name theory_name prompt_template =
     ''You are a warm, supportive behavior change coach.\<newline>\<newline>''
     @ ''User's Goal: '' @ user_goal @ ''\<newline>''
     @ ''User's Barrier: '' @ barrier_text @ ''\<newline>''
     @ ''Technique: '' @ name @ '' (based on '' @ theory_name @ '')\<newline>\<newline>''
     @ ''Your task:\<newline>''
     @ ''Create a personalized, friendly micro-intervention (2-3 sentences) using this framework:\<newline>''
     @ prompt_template @ ''\<newline>\<newline>''
     @ ''Requirements:\<newline>''
     @ ''- Be warm and empathetic, like a supportive friend\<newline>''
     @ ''- Make it personal to THEIR specific situation\<newline>''
     @ ''- Be specific and actionable\<newline>''
     @ ''- Keep it under 100 words\<newline>''
     @ ''- Sound encouraging, not preachy\<newline>\<newline>''
     @ ''Generate the intervention now:''\<close>

text \<open>The dict both \<^verbatim>\<open>return\<close> statements build around their text.\<close>

definition intervention_dict :: "pyval \<Rightarrow> string \<Rightarrow> py_error + pyval" where
  "intervention_dict technique text =
     then_do (subscript technique ''name'') (\<lambda>name.
     then_do (subscript technique ''theory'') (\<lambda>theory_name.
     then_do (subscript technique ''duration_minutes'') (\<lambda>duration.
     then_do (subscript technique ''evidence_base'') (\<lambda>evidence.
     then_do (subscript technique ''target_component'') (\<lambda>component.
       Inr (PDict
         [(''intervention_text'', PStr text),
          (''technique_name'', name),
          (''theory'', theory_name),
          (''duration_minutes'', duration),
          (''evidence'', evidence),
          (''target_component'', component)]))))))"

text \<open>The prompt of the \<^verbatim>\<open>try\<close> block, built before the request is made.\<close>

definition build_prompt :: "(pyval \<Rightarrow> string) \<Rightarrow> string \<Rightarrow> pyval \<Rightarrow> string \<Rightarrow> py_error + string" where
  "build_prompt render user_goal technique barrier_text =
     then_do (subscript technique ''prompt_template'') (\<lambda>template.
     then_do (str_replace template ''[GOAL]'' user_goal) (\<lambda>prompt_template.
     then_do (subscript technique ''name'') (\<lambda>name.
     then_do (subscript technique ''theory'') (\<lambda>theory_name.
       Inr (intervention_prompt user_goal barrier_text
              (py_str render name) (py_str render theory_name) prompt_template)))))"

definition generate_intervention_body ::
  "service \<Rightarrow> (pyval \<Rightarrow> string) \<Rightarrow> nat \<Rightarrow> string \<Rightarrow> pyval \<Rightarrow> string \<Rightarrow> (py_error + pyval) \<times> nat" where
  "generate_intervention_body svc render calls user_goal technique barrier_text =
     (case build_prompt render user_goal technique barrier_text of
        Inl e \<Rightarrow> (Inl e, calls)
      | Inr final_prompt \<Rightarrow>
          (case generate_content svc calls final_prompt of
             (response, calls') \<Rightarrow>
               (then_do response (\<lambda>text. intervention_dict technique (strip text)), calls')))"

text \<open>The \<^verbatim>\<open>except\<close> branch: it reads the technique again and may raise itself.\<close>

definition fallback_intervention :: "string \<Rightarrow> pyval \<Rightarrow> py_error + pyval" where
  \<open>fallback_intervention user_goal technique =
     then_do (subscript technique ''prompt_template'') (\<lambda>template.
     then_do (str_replace template ''[GOAL]'' user_goal) (\<lambda>filled.
       intervention_dict technique (''Let's work on '' @ user_goal @ ''. '' @ filled)))\<close>

definition generate_intervention ::
  "service \<Rightarrow> (pyval \<Rightarrow> string) \<Rightarrow> nat \<Rightarrow> string \<Rightarrow> pyval \<Rightarrow> string \<Rightarrow> (py_error + pyval) \<times> nat" where
  "generate_intervention svc render calls user_goal technique barrier_text =
     (case generate_intervention_body svc render calls user_goal technique barrier_text of
        (outcome, calls') \<Rightarrow>
          (try_except outcome (\<lambda>e. fallback_intervention user_goal technique), calls'))"

section \<open>The feedback log\<close>

subsection \<open>Numbers as text\<close>

text \<open>
  \<^verbatim>\<open>csv.writer\<close> writes the rating, an \<^verbatim>\<open>int\<close>, as \<^verbatim>\<open>str\<close> prints it
  (the rating is taken to be below the size at which Python refuses to print an
  \<^verbatim>\<open>int\<close>).
\<close>

fun show_nat :: "nat \<Rightarrow> string" where
  "show_nat n =
     (if n < 10 then [''0123456789'' ! n]
      else show_nat (n div 10) @ [''0123456789'' ! (n mod 10)])"

declare show_nat.simps [simp del]

definition show_int :: "int \<Rightarrow> string" where
  "show_int i = (if i < 0 then CHR ''-'' # show_nat (nat (- i)) else show_nat (nat i))"

text \<open>
  \<^verbatim>\<open>float(s)\<close> on a string: white space around, a sign, then \<^verbatim>\<open>inf\<close>, \<^verbatim>\<open>infinity\<close>
  or \<^verbatim>\<open>nan\<close> in any case, or a decimal number
  \<^verbatim>\<open>[digitpart] "." digitpart | digitpart ["."]\<close> with an optional exponent, where a
  digitpart is \<^verbatim>\<open>digit (["_"] digit)*\<close>. Anything else is a \<^verbatim>\<open>ValueError\<close>.
\<close>

definition is_digit :: "char \<Rightarrow> bool" where
  "is_digit c = (let n = (of_char c :: nat) in 48 \<le> n \<and> n \<le> 57)"

definition digit_value :: "char \<Rightarrow> nat" where
  "digit_value c = of_char c - 48"

fun digitpart :: "string \<Rightarrow> bool" where
  "digitpart [] = False"
| "digitpart [c] = is_digit c"
| "digitpart (c # d # ds) =
     (is_digit c \<and> (if d = CHR ''_'' then digitpart ds else digitpart (d # ds)))"

definition digits_value :: "string \<Rightarrow> nat" where
  "digits_value s = foldl (\<lambda>a c. 10 * a + digit_value c) 0 (filter is_digit s)"

text \<open>The text before the first character that satisfies \<open>P\<close>, and the text after it.\<close>

definition split_on :: "(char \<Rightarrow> bool) \<Rightarrow> string \<Rightarrow> string \<times> string option" where
  "split_on P s =
     (takeWhile (\<lambda>c. \<not> P c) s,
      case dropWhile (\<lambda>c. \<not> P c) s of [] \<Rightarrow> None | c # rest \<Rightarrow> Some rest)"

definition parse_mantissa :: "string \<Rightarrow> rat option" where
  "parse_mantissa m =
     (case split_on (\<lambda>c. c = CHR ''.'') m of
        (whole_part, None) \<Rightarrow> if digitpart whole_part then Some (of_nat (digits_value whole_part)) else None
      | (whole_part, Some frac_part) \<Rightarrow>
          if (digitpart whole_part \<and> (frac_part = [] \<or> digitpart frac_part)) \<or> (whole_part = [] \<and> digitpart frac_part)
          then Some (of_nat (digits_value whole_part)
                     + of_nat (digits_value frac_part) / 10 ^ length (filter is_digit frac_part))
          else None)"

definition parse_exponent :: "string \<Rightarrow> int option" where
  "parse_exponent x =
     (case x of
        [] \<Rightarrow> None
      | c # r \<Rightarrow>
          if c = CHR ''-'' then (if digitpart r then Some (- int (digits_value r)) else None)
          else if c = CHR ''+'' then (if digitpart r then Some (int (digits_value r)) else None)
          else if digitpart x then Some (int (digits_value x))
          else None)"

definition parse_number :: "string \<Rightarrow> rat option" where
  "parse_number s =
     (case split_on (\<lambda>c. c = CHR ''e'' \<or> c = CHR ''E'') s of
        (m, None) \<Rightarrow> parse_mantissa m
      | (m, Some x) \<Rightarrow>
          (case parse_mantissa m of
             None \<Rightarrow> None
           | Some q \<Rightarrow>
               (case parse_exponent x of
                  None \<Rightarrow> None
                | Some k \<Rightarrow> Some (if 0 \<le> k then q * 10 ^ nat k else q / 10 ^ nat (- k)))))"

definition py_float :: "string \<Rightarrow> py_error + pyfloat" where
  "py_float s =
     (let t = strip s;
          negative = (t \<noteq> [] \<and> hd t = CHR ''-'');
          signed = (t \<noteq> [] \<and> (hd t = CHR ''-'' \<or> hd t = CHR ''+''));
          body = (if signed then tl t else t)
      in if lower body = ''inf'' \<or> lower body = ''infinity''
         then Inr (if negative then NegInf else PosInf)
         else if lower body = ''nan'' then Inr NaN
         else (case parse_number body of
                 None \<Rightarrow> Inl ValueError
               | Some q \<Rightarrow> Inr (Finite (if negative then - q else q))))"

text \<open>Float addition, and division by a positive count.\<close>

fun float_add :: "pyfloat \<Rightarrow> pyfloat \<Rightarrow> pyfloat" where
  "float_add (Finite a) (Finite b) = Finite (a + b)"
| "float_add NaN y = NaN"
| "float_add x NaN = NaN"
| "float_add PosInf NegInf = NaN"
| "float_add NegInf PosInf = NaN"
| "float_add PosInf y = PosInf"
| "float_add NegInf y = NegInf"
| "float_add (Finite a) y = y"

fun float_div :: "pyfloat \<Rightarrow> nat \<Rightarrow> pyfloat" where
  "float_div (Finite a) n = Finite (a / of_nat n)"
| "float_div x n = x"

definition float_sum :: "pyfloat list \<Rightarrow> pyfloat" where
  "float_sum xs = foldl float_add (Finite 0) xs"

subsection \<open>The file\<close>

text \<open>
  The log is one CSV file: absent (\<open>None\<close>) or a list of rows, each a list of cells.
  \<^verbatim>\<open>csv.writer\<close> and \<^verbatim>\<open>csv.reader\<close> are taken to be inverse on rows; a write that
  fails (\<open>fault\<close> is the exception) leaves the file as it was.
\<close>

type_synonym row = "string list"

type_synonym csv_file = "row list option"

record feedback =
  user_goal :: string
  user_barrier :: string
  target_component :: string
  technique_name :: string
  "theory" :: string
  rating :: int
  would_try :: string
  feedback_text :: string

definition header :: row where
  "header =
     [''timestamp'', ''user_goal'', ''user_barrier'', ''target_component'',
      ''technique_used'', ''theory'', ''rating'', ''would_try'', ''feedback_text'']"

definition rows_of :: "csv_file \<Rightarrow> row list" where
  "rows_of file = (case file of None \<Rightarrow> [] | Some rows \<Rightarrow> rows)"

text \<open>\<^verbatim>\<open>_initialize_csv\<close>: it has no handler, so a failing write is raised.\<close>

definition initialize_csv :: "py_error option \<Rightarrow> csv_file \<Rightarrow> py_error + csv_file" where
  "initialize_csv fault file =
     (case file of
        Some rows \<Rightarrow> Inr file
      | None \<Rightarrow> (case fault of Some e \<Rightarrow> Inl e | None \<Rightarrow> Inr (Some [header])))"

text \<open>Opening in mode \<^verbatim>\<open>'a'\<close> (which creates an absent file) and writing one row.\<close>

definition append_row :: "py_error option \<Rightarrow> row \<Rightarrow> csv_file \<Rightarrow> py_error + csv_file" where
  "append_row fault r file =
     (case fault of Some e \<Rightarrow> Inl e | None \<Rightarrow> Inr (Some (rows_of file @ [r])))"

text \<open>\<open>now\<close> is \<^verbatim>\<open>datetime.now().strftime("%Y-%m-%d %H:%M:%S")\<close>, read from the clock.\<close>

definition feedback_row :: "string \<Rightarrow> feedback \<Rightarrow> row" where
  "feedback_row now fb =
     [now, user_goal fb, user_barrier fb, target_component fb, technique_name fb,
      theory fb, show_int (rating fb), would_try fb, feedback_text fb]"

definition save_feedback :: "py_error option \<Rightarrow> string \<Rightarrow> feedback \<Rightarrow> csv_file \<Rightarrow> bool \<times> csv_file" where
  "save_feedback fault now fb file =
     (case append_row fault (feedback_row now fb) file of
        Inl e \<Rightarrow> (False, file)
      | Inr file' \<Rightarrow> (True, file'))"

subsection \<open>Reading the rows back\<close>

text \<open>
  \<^verbatim>\<open>get_statistics\<close> opens the file without \<^verbatim>\<open>newline=''\<close>, so inside a cell
  \<^verbatim>\<open>\r\n\<close> and \<^verbatim>\<open>\r\<close> arrive as \<^verbatim>\<open>\n\<close>.
\<close>

fun universal_newlines :: "string \<Rightarrow> string" where
  "universal_newlines [] = []"
| "universal_newlines [c] = (if c = CHR 0x0D then [CHR 0x0A] else [c])"
| "universal_newlines (c # d # ds) =
     (if c = CHR 0x0D \<and> d = CHR 0x0A then CHR 0x0A # universal_newlines ds
      else if c = CHR 0x0D then CHR 0x0A # universal_newlines (d # ds)
      else c # universal_newlines (d # ds))"

definition read_csv :: "py_error option \<Rightarrow> row list \<Rightarrow> py_error + row list" where
  "read_csv fault content =
     (case fault of Some e \<Rightarrow> Inl e | None \<Rightarrow> Inr (map (map universal_newlines) content))"

text \<open>
  \<^verbatim>\<open>csv.DictReader\<close>: the first row names the fields, empty rows after it are
  skipped, and each other row becomes a dict. A row shorter than the field names has
  \<^verbatim>\<open>None\<close> for the missing ones; of a field name that stands twice the last value counts.
\<close>

type_synonym cell = "string option"

type_synonym dict_row = "(string \<times> cell) list"

fun zip_row :: "row \<Rightarrow> row \<Rightarrow> dict_row" where
  "zip_row [] r = []"
| "zip_row (f # fs) [] = (f, None) # zip_row fs []"
| "zip_row (f # fs) (c # cs) = (f, Some c) # zip_row fs cs"

definition dict_reader :: "row list \<Rightarrow> dict_row list" where
  "dict_reader rows =
     (case rows of
        [] \<Rightarrow> []
      | fieldnames # rest \<Rightarrow> map (zip_row fieldnames) (filter (\<lambda>r. r \<noteq> []) rest))"

definition row_get :: "dict_row \<Rightarrow> string \<Rightarrow> py_error + cell" where
  "row_get d key = (case map_of (rev d) key of None \<Rightarrow> Inl KeyError | Some c \<Rightarrow> Inr c)"

subsection \<open>The statistics\<close>

text \<open>\<^verbatim>\<open>float(row['rating'])\<close>: \<^verbatim>\<open>float(None)\<close> is a \<^verbatim>\<open>TypeError\<close>.\<close>

definition rating_of :: "dict_row \<Rightarrow> py_error + pyfloat" where
  "rating_of d =
     then_do (row_get d ''rating'')
       (\<lambda>c. case c of None \<Rightarrow> Inl TypeError | Some s \<Rightarrow> py_float s)"

text \<open>\<^verbatim>\<open>sum(float(row['rating']) for row in rows)\<close>, from the left.\<close>

fun sum_ratings :: "dict_row list \<Rightarrow> pyfloat \<Rightarrow> py_error + pyfloat" where
  "sum_ratings [] total_rating = Inr total_rating"
| "sum_ratings (d # rest) total_rating =
     then_do (rating_of d) (\<lambda>x. sum_ratings rest (float_add total_rating x))"

text \<open>\<^verbatim>\<open>row['would_try'].lower() in ['yes', 'maybe']\<close>: \<^verbatim>\<open>None\<close> has no \<^verbatim>\<open>lower\<close>.\<close>

definition would_try_of :: "dict_row \<Rightarrow> py_error + bool" where
  "would_try_of d =
     then_do (row_get d ''would_try'')
       (\<lambda>c. case c of
               None \<Rightarrow> Inl AttributeError
             | Some w \<Rightarrow> Inr (lower w \<in> set [''yes'', ''maybe'']))"

fun count_would_try :: "dict_row list \<Rightarrow> nat \<Rightarrow> py_error + nat" where
  "count_would_try [] n = Inr n"
| "count_would_try (d # rest) n =
     then_do (would_try_of d) (\<lambda>yes. count_would_try rest (if yes then Suc n else n))"

text \<open>The ratings of each technique, in the order the techniques first appear.\<close>

definition add_rating :: "cell \<Rightarrow> pyfloat \<Rightarrow> (cell \<times> pyfloat list) list \<Rightarrow> (cell \<times> pyfloat list) list" where
  "add_rating tech x ratings =
     (if tech \<in> fst ` set ratings
      then map (\<lambda>(k, xs). if k = tech then (k, xs @ [x]) else (k, xs)) ratings
      else ratings @ [(tech, [x])])"

fun technique_ratings :: "dict_row list \<Rightarrow> (cell \<times> pyfloat list) list \<Rightarrow> py_error + (cell \<times> pyfloat list) list" where
  "technique_ratings [] ratings = Inr ratings"
| "technique_ratings (d # rest) ratings =
     then_do (row_get d ''technique_used'') (\<lambda>tech.
     then_do (rating_of d) (\<lambda>x.
       technique_ratings rest (add_rating tech x ratings)))"

definition technique_avg :: "(cell \<times> pyfloat list) list \<Rightarrow> (cell \<times> pyfloat) list" where
  "technique_avg ratings = map (\<lambda>(tech, xs). (tech, float_div (float_sum xs) (length xs))) ratings"

definition add_component :: "cell \<Rightarrow> (cell \<times> nat) list \<Rightarrow> (cell \<times> nat) list" where
  "add_component c counts =
     (case map_of counts c of
        None \<Rightarrow> counts @ [(c, 1)]
      | Some n \<Rightarrow> map (\<lambda>(k, m). if k = c then (k, n + 1) else (k, m)) counts)"

fun component_count :: "dict_row list \<Rightarrow> (cell \<times> nat) list \<Rightarrow> py_error + (cell \<times> nat) list" where
  "component_count [] counts = Inr counts"
| "component_count (d # rest) counts =
     then_do (row_get d ''target_component'') (\<lambda>c. component_count rest (add_component c counts))"

record statistics =
  total_responses :: nat
  average_rating :: pyfloat
  would_try_percent :: pyfloat
  technique_performance :: "(cell \<times> pyfloat) list"
  component_distribution :: "(cell \<times> nat) list"

definition get_statistics_body :: "py_error option \<Rightarrow> row list \<Rightarrow> py_error + statistics option" where
  "get_statistics_body fault content =
     then_do (read_csv fault content) (\<lambda>lines.
       let rows = dict_reader lines in
       if length rows = 0 then Inr None
       else
         then_do (sum_ratings rows (Finite 0)) (\<lambda>total_rating.
         then_do (count_would_try rows 0) (\<lambda>would_try_count.
         then_do (technique_ratings rows []) (\<lambda>ratings.
         then_do (component_count rows []) (\<lambda>counts.
           Inr (Some \<lparr>
             total_responses = length rows,
             average_rating = float_div total_rating (length rows),
             would_try_percent = Finite (of_nat would_try_count / of_nat (length rows) * 100),
             technique_performance = technique_avg ratings,
             component_distribution = counts \<rparr>))))))"

definition get_statistics :: "py_error option \<Rightarrow> csv_file \<Rightarrow> py_error + statistics option" where
  "get_statistics fault file =
     (case file of
        None \<Rightarrow> Inr None
      | Some content \<Rightarrow> try_except (get_statistics_body fault content) (\<lambda>e. Inr None))"

text \<open>A session: one call of \<^verbatim>\<open>save_feedback\<close> after the other, each with its own clock reading.\<close>

fun save_all :: "(string \<times> feedback) list \<Rightarrow> csv_file \<Rightarrow> csv_file" where
  "save_all [] file = file"
| "save_all ((now, fb) # rest) file = save_all rest (snd (save_feedback None now fb file))"

section \<open>The selector's rule, as the specification words it\<close>

text \<open>
  A technique record has a target component and a list of keyword strings. The rule:
  the first record of the category one of whose keywords occurs in the lower-cased
  barrier text; failing that, the first record of the category; failing that, the first
  record of the catalogue.
\<close>

fun is_string :: "pyval \<Rightarrow> bool" where
  "is_string (PStr s) = True"
| "is_string v = False"

definition technique_record :: "pyval \<Rightarrow> bool" where
  "technique_record tech =
     (case subscript tech ''target_component'' of
        Inl e \<Rightarrow> False
      | Inr c \<Rightarrow>
          (case subscript tech ''barrier_keywords'' of
             Inr (PList ks) \<Rightarrow> list_all is_string ks
           | _ \<Rightarrow> False))"

fun strings_of :: "pyval list \<Rightarrow> string list" where
  "strings_of [] = []"
| "strings_of (PStr s # vs) = s # strings_of vs"
| "strings_of (v # vs) = strings_of vs"

definition keywords_of :: "pyval \<Rightarrow> string list" where
  "keywords_of tech =
     (case subscript tech ''barrier_keywords'' of Inr (PList ks) \<Rightarrow> strings_of ks | _ \<Rightarrow> [])"

definition component_is :: "string \<Rightarrow> pyval \<Rightarrow> bool" where
  "component_is category tech = (subscript tech ''target_component'' = Inr (PStr category))"

definition keyword_occurs :: "string \<Rightarrow> pyval \<Rightarrow> bool" where
  "keyword_occurs text tech = list_ex (\<lambda>k. sublist k text) (keywords_of tech)"

definition three_pass_rule :: "pyval list \<Rightarrow> string \<Rightarrow> string \<Rightarrow> pyval" where
  "three_pass_rule catalog barrier category =
     (case find (\<lambda>t. component_is category t \<and> keyword_occurs (lower barrier) t) catalog of
        Some t \<Rightarrow> t
      | None \<Rightarrow>
          (case find (component_is category) catalog of
             Some t \<Rightarrow> t
           | None \<Rightarrow> hd catalog))"

section \<open>Example inputs\<close>

text \<open>
  Technique \<open>A\<close> of the specification's example; the fields the example leaves out
  are parameters. \<open>technique_B\<close> is a record of another component and
  \<open>technique_broken\<close> a record without keywords.
\<close>

definition technique_A :: "pyval \<Rightarrow> pyval \<Rightarrow> pyval \<Rightarrow> pyval" where
  "technique_A theory_name duration evidence =
     PDict
       [(''name'', PStr ''A''),
        (''target_component'', PStr ''motivation''),
        (''barrier_keywords'', PList [PStr ''tired'', PStr ''bored'']),
        (''prompt_template'', PStr ''Try pairing [GOAL] with something fun.''),
        (''theory'', theory_name),
        (''duration_minutes'', duration),
        (''evidence_base'', evidence)]"

definition example_A :: pyval where
  "example_A = technique_A (PStr ''Behavioral Economics'') (PInt 5) (PStr ''field studies'')"

definition technique_B :: pyval where
  "technique_B =
     PDict
       [(''name'', PStr ''B''),
        (''target_component'', PStr ''opportunity''),
        (''barrier_keywords'', PList [PStr ''time'', PStr ''busy'']),
        (''prompt_template'', PStr ''Plan when and where you will [GOAL].''),
        (''theory'', PStr ''Implementation Intentions''),
        (''duration_minutes'', PInt 3),
        (''evidence_base'', PStr ''field studies'')]"

definition technique_broken :: pyval where
  "technique_broken = PDict [(''name'', PStr ''C''), (''target_component'', PStr ''motivation'')]"

definition failing :: "py_error \<Rightarrow> service" where
  "failing e = (\<lambda>i prompt. Inl e)"

definition answering :: "string \<Rightarrow> service" where
  "answering response = (\<lambda>i prompt. Inr response)"

definition unrendered :: "pyval \<Rightarrow> string" where
  "unrendered = (\<lambda>v. [])"

definition intervention_text_of :: "py_error + pyval \<Rightarrow> py_error + pyval" where
  "intervention_text_of outcome = then_do outcome (\<lambda>d. subscript d ''intervention_text'')"

text \<open>
  The dict \<^verbatim>\<open>csv.DictReader\<close> makes of a row \<open>save_feedback\<close> wrote under the
  header of \<^verbatim>\<open>_initialize_csv\<close>, and the feedback of the test at the end of
  \<^verbatim>\<open>feedback_manager.py\<close> with the rating and the answer left open.
\<close>

definition saved_row :: "string \<Rightarrow> feedback \<Rightarrow> dict_row" where
  "saved_row now fb = zip_row header (map universal_newlines (feedback_row now fb))"

definition example_feedback :: "int \<Rightarrow> string \<Rightarrow> feedback" where
  "example_feedback r w =
     \<lparr> user_goal = ''exercise more'', user_barrier = ''too tired'',
       target_component = ''motivation'', technique_name = ''Temptation Bundling'',
       theory = ''Behavioral Economics'', rating = r, would_try = w,
       feedback_text = ''This sounds fun!'' \<rparr>"

definition example_entries :: "(string \<times> feedback) list" where
  "example_entries =
     [(''2026-01-05 09:00:00'', example_feedback 4 ''Yes''),
      (''2026-01-05 09:05:00'', example_feedback 2 ''No'')]"

definition bad_row :: row where
  "bad_row =
     [''2026-01-05 09:10:00'', ''sleep earlier'', ''phone in bed'', ''opportunity'',
      ''Environment Design'', ''Nudge Theory'', ''four'', ''Yes'', []]"

section \<open>Text\<close>

lemma str_in_sublist: "str_in k t = sublist k t"
  by (induction t) (simp_all add: sublist_Cons_right)

lemma sublist_dropWhile:
  assumes "k \<noteq> []" and "\<forall>c\<in>set k. \<not> P c"
  shows "sublist k (dropWhile P t) = sublist k t"
proof (induction t)
  case Nil
  show ?case by simp
next
  case (Cons c cs)
  show ?case
  proof (cases "P c")
    case True
    from assms obtain a k' where k: "k = a # k'" and "\<not> P a" by (cases k) auto
    with True have "\<not> prefix k (c # cs)" by auto
    with True Cons show ?thesis by (simp add: sublist_Cons_right)
  next
    case False
    then show ?thesis by simp
  qed
qed

lemma sublist_strip:
  assumes "k \<noteq> []" and "\<forall>c\<in>set k. \<not> is_space c"
  shows "sublist k (strip t) = sublist k t"
proof -
  have r: "rev k \<noteq> []" "\<forall>c\<in>set (rev k). \<not> is_space c" using assms by simp_all
  have "sublist k (strip t) = sublist (rev k) (dropWhile is_space (rev (dropWhile is_space t)))"
    unfolding strip_def by (metis sublist_rev rev_rev_ident)
  also have "\<dots> = sublist (rev k) (rev (dropWhile is_space t))"
    by (rule sublist_dropWhile [OF r])
  also have "\<dots> = sublist k (dropWhile is_space t)"
    by (rule sublist_rev)
  also have "\<dots> = sublist k t"
    by (rule sublist_dropWhile [OF assms])
  finally show ?thesis .
qed

lemma is_space_lower_char: "is_space (lower_char c) = is_space c"
  by (auto simp: lower_char_def is_space_def split: option.splits if_splits)

lemma lower_strip: "lower (strip t) = strip (lower t)"
proof -
  have d: "\<And>xs. map lower_char (dropWhile is_space xs) = dropWhile is_space (map lower_char xs)"
    by (simp add: dropWhile_map comp_def is_space_lower_char)
  show ?thesis
    by (simp add: lower_def strip_def rev_map [symmetric] d)
qed

section \<open>The selector follows the three-pass rule\<close>

lemma keyword_loop_strings:
  "list_all is_string ks \<Longrightarrow>
     keyword_loop ks text = Inr (list_ex (\<lambda>k. sublist k text) (strings_of ks))"
proof (induction ks)
  case Nil
  show ?case by simp
next
  case (Cons k ks)
  then obtain s where "k = PStr s" by (cases k) simp_all
  with Cons show ?case by (simp add: str_in_sublist)
qed

lemma technique_recordE:
  assumes "technique_record tech"
  obtains c ks where "subscript tech ''target_component'' = Inr c"
    and "subscript tech ''barrier_keywords'' = Inr (PList ks)"
    and "list_all is_string ks"
  using assms unfolding technique_record_def
  by (auto split: sum.splits pyval.splits)

lemma keyword_pass_find:
  "list_all technique_record catalog \<Longrightarrow>
     keyword_pass catalog text category =
       Inr (find (\<lambda>t. component_is category t \<and> keyword_occurs text t) catalog)"
proof (induction catalog)
  case Nil
  show ?case by simp
next
  case (Cons tech rest)
  from Cons.prems have "technique_record tech" by simp
  then obtain c ks where c: "subscript tech ''target_component'' = Inr c"
    and ks: "subscript tech ''barrier_keywords'' = Inr (PList ks)"
    and strs: "list_all is_string ks"
    by (rule technique_recordE)
  from Cons have IH: "keyword_pass rest text category =
       Inr (find (\<lambda>t. component_is category t \<and> keyword_occurs text t) rest)" by simp
  show ?case
    by (simp add: c ks IH keyword_loop_strings [OF strs] component_is_def keyword_occurs_def keywords_of_def)
qed

lemma component_pass_find:
  "list_all technique_record catalog \<Longrightarrow>
     component_pass catalog category = Inr (find (component_is category) catalog)"
proof (induction catalog)
  case Nil
  show ?case by simp
next
  case (Cons tech rest)
  from Cons.prems have "technique_record tech" by simp
  then obtain c where c: "subscript tech ''target_component'' = Inr c"
    by (rule technique_recordE)
  with Cons show ?case by (simp add: component_is_def)
qed

lemma first_or_none_hd: "catalog \<noteq> [] \<Longrightarrow> first_or_none catalog = hd catalog"
  by (cases catalog) simp_all

text \<open>
  Claim C1. On a non-empty catalogue of technique records, \<open>select_technique\<close> returns
  what the three-pass rule names: the first record of the category with a keyword that
  occurs in the lower-cased barrier text, else the first record of the category, else
  the first record.
\<close>

theorem select_technique_three_pass:
  assumes "catalog \<noteq> []" and "list_all technique_record catalog"
  shows "select_technique catalog barrier category = Inr (three_pass_rule catalog barrier category)"
  using assms
  by (simp add: select_technique_def select_technique_body_def try_except_def three_pass_rule_def
      keyword_pass_find component_pass_find first_or_none_hd split: option.splits)

theorem select_technique_three_pass_witness:
  \<open>[technique_B, example_A] \<noteq> []
   \<and> list_all technique_record [technique_B, example_A]
   \<and> select_technique [technique_B, example_A] ''I'm too Tired'' ''motivation'' = Inr example_A\<close>
proof -
  have a: "[technique_B, example_A] \<noteq> []" by simp
  have b: "list_all technique_record [technique_B, example_A]"
    by (simp add: technique_record_def technique_B_def example_A_def technique_A_def)
  have c: \<open>three_pass_rule [technique_B, example_A] ''I'm too Tired'' ''motivation'' = example_A\<close>
    by (simp add: three_pass_rule_def component_is_def keyword_occurs_def keywords_of_def
        technique_B_def example_A_def technique_A_def lower_def lower_char_def sublist_Cons_right)
  show ?thesis
    using a b c select_technique_three_pass [OF a b, of \<open>''I'm too Tired''\<close> "''motivation''"]
    by simp
qed

section \<open>The selector fails only on an empty catalogue\<close>

lemma keyword_pass_member:
  "keyword_pass catalog text category = Inr (Some tech) \<Longrightarrow> tech \<in> set catalog"
  by (induction catalog) (auto split: sum.splits if_splits)

lemma component_pass_member:
  "component_pass catalog category = Inr (Some tech) \<Longrightarrow> tech \<in> set catalog"
  by (induction catalog) (auto split: sum.splits if_splits)

lemma first_or_none_member: "catalog \<noteq> [] \<Longrightarrow> first_or_none catalog \<in> set catalog"
  by (cases catalog) simp_all

lemma select_technique_body_member:
  assumes "catalog \<noteq> []" and "select_technique_body catalog barrier category = Inr tech"
  shows "tech \<in> set catalog"
  using assms
  by (auto simp: select_technique_body_def Let_def first_or_none_member
      dest: keyword_pass_member component_pass_member split: sum.splits option.splits)

lemma select_technique_cases:
  "select_technique catalog barrier category =
     (case select_technique_body catalog barrier category of
        Inl e \<Rightarrow> Inr (first_or_none catalog)
      | Inr tech \<Rightarrow> Inr tech)"
  by (simp add: select_technique_def try_except_def)

lemma select_technique_member:
  assumes "catalog \<noteq> []"
  shows "\<exists>tech\<in>set catalog. select_technique catalog barrier category = Inr tech"
  using assms
  by (auto simp: select_technique_cases first_or_none_member
      dest: select_technique_body_member split: sum.splits)

lemma select_technique_empty: "select_technique [] barrier category = Inr PNone"
  by (simp add: select_technique_def select_technique_body_def try_except_def)

lemma keyword_pass_record:
  "keyword_pass catalog t category = Inr (Some tech) \<Longrightarrow> tech \<noteq> PNone"
  by (induction catalog) (auto split: sum.splits if_splits)

lemma component_pass_record:
  "component_pass catalog category = Inr (Some tech) \<Longrightarrow> tech \<noteq> PNone"
  by (induction catalog) (auto split: sum.splits if_splits)

lemma select_technique_null_first:
  "(select_technique catalog barrier category = Inr PNone) = (catalog = [] \<or> hd catalog = PNone)"
proof (cases catalog)
  case Nil
  then show ?thesis by (simp add: select_technique_empty)
next
  case (Cons first rest)
  show ?thesis
  proof (cases "first = PNone")
    case True
    with Cons show ?thesis
      by (simp add: select_technique_cases select_technique_body_def)
  next
    case False
    with Cons show ?thesis
      by (auto simp: select_technique_cases select_technique_body_def Let_def
          dest: keyword_pass_record component_pass_record split: sum.splits option.splits)
  qed
qed

text \<open>
  Claim C5. On the empty catalogue \<open>select_technique\<close> returns \<^verbatim>\<open>None\<close>; on a
  non-empty catalogue it returns one of its entries; and when no entry of the
  catalogue is itself \<^verbatim>\<open>None\<close>, it returns \<^verbatim>\<open>None\<close> exactly when the catalogue is empty.
\<close>

theorem select_technique_fails_iff_empty:
  "select_technique [] barrier category = Inr PNone
   \<and> (catalog \<noteq> [] \<longrightarrow> (\<exists>tech\<in>set catalog. select_technique catalog barrier category = Inr tech))
   \<and> (PNone \<notin> set catalog \<longrightarrow>
        ((select_technique catalog barrier category = Inr PNone) = (catalog = [])))"
proof (intro conjI impI)
  show "select_technique [] barrier category = Inr PNone" by (rule select_technique_empty)
next
  assume "catalog \<noteq> []"
  then show "\<exists>tech\<in>set catalog. select_technique catalog barrier category = Inr tech"
    by (rule select_technique_member)
next
  assume none: "PNone \<notin> set catalog"
  show "(select_technique catalog barrier category = Inr PNone) = (catalog = [])"
  proof (cases "catalog = []")
    case True
    then show ?thesis by (simp add: select_technique_empty)
  next
    case False
    then obtain tech where "tech \<in> set catalog"
      and "select_technique catalog barrier category = Inr tech"
      using select_technique_member by blast
    with none False show ?thesis by auto
  qed
qed

theorem select_technique_fails_iff_empty_witness:
  \<open>select_technique [] ''I'm too tired'' ''motivation'' = Inr PNone
   \<and> [technique_B, example_A] \<noteq> []
   \<and> PNone \<notin> set [technique_B, example_A]
   \<and> select_technique [technique_B, example_A] ''I'm too tired'' ''motivation'' \<noteq> Inr PNone\<close>
  using select_technique_fails_iff_empty
          [of \<open>''I'm too tired''\<close> "''motivation''" "[technique_B, example_A]"]
  by (simp add: technique_B_def example_A_def technique_A_def)

section \<open>The selector never raises\<close>

text \<open>
  Claim C10. \<open>select_technique\<close> always returns a value; when the scan raises, that
  value is the first entry of the catalogue (\<^verbatim>\<open>None\<close> for the empty one), whatever its
  component.
\<close>

theorem select_technique_never_raises:
  "(\<exists>v. select_technique catalog barrier category = Inr v)
   \<and> (\<forall>e. select_technique_body catalog barrier category = Inl e \<longrightarrow>
          select_technique catalog barrier category = Inr (first_or_none catalog))"
  by (simp add: select_technique_cases split: sum.splits)

theorem select_technique_never_raises_witness:
  \<open>select_technique_body [technique_B, technique_broken, example_A] ''I'm too tired'' ''motivation''
     = Inl KeyError
   \<and> select_technique [technique_B, technique_broken, example_A] ''I'm too tired'' ''motivation''
     = Inr technique_B\<close>
proof -
  have a: \<open>select_technique_body [technique_B, technique_broken, example_A] ''I'm too tired''
      ''motivation'' = Inl KeyError\<close>
    by (simp add: select_technique_body_def technique_B_def technique_broken_def)
  show ?thesis
    using a select_technique_never_raises
            [of "[technique_B, technique_broken, example_A]" \<open>''I'm too tired''\<close> "''motivation''"]
    by simp
qed

section \<open>The classifier\<close>

lemma parse_component_sublist:
  "parse_component response =
     (if sublist ''capab'' (lower response) then ''capability''
      else if sublist ''opportun'' (lower response) then ''opportunity''
      else ''motivation'')"
proof -
  have a: "sublist ''capab'' (strip (lower response)) = sublist ''capab'' (lower response)"
    by (rule sublist_strip) (simp_all add: is_space_def)
  have b: "sublist ''opportun'' (strip (lower response)) = sublist ''opportun'' (lower response)"
    by (rule sublist_strip) (simp_all add: is_space_def)
  show ?thesis
    by (simp only: parse_component_def Let_def str_in_sublist lower_strip a b)
qed

lemma analyze_barrier_cases:
  "analyze_barrier svc calls barrier =
     (case svc calls (barrier_prompt barrier) of
        Inl e \<Rightarrow> Inr ''motivation''
      | Inr response \<Rightarrow> Inr (parse_component response),
      Suc calls)"
  by (simp add: analyze_barrier_def analyze_barrier_body_def generate_content_def
      then_do_def try_except_def split: sum.splits)

lemma parse_component_range:
  "parse_component response \<in> {''capability'', ''opportunity'', ''motivation''}"
  by (simp add: parse_component_def Let_def)

text \<open>
  Claim C3. \<open>analyze_barrier\<close> returns one of \<^verbatim>\<open>capability\<close>, \<^verbatim>\<open>opportunity\<close> and
  \<^verbatim>\<open>motivation\<close>, and on an answer of the service it returns \<^verbatim>\<open>capability\<close> when the
  lower-cased answer contains \<^verbatim>\<open>capab\<close>, else \<^verbatim>\<open>opportunity\<close> when it contains
  \<^verbatim>\<open>opportun\<close>, else \<^verbatim>\<open>motivation\<close>.
\<close>

theorem analyze_barrier_three_values:
  "fst (analyze_barrier svc calls barrier)
     \<in> {Inr ''capability'', Inr ''opportunity'', Inr ''motivation''}
   \<and> (\<forall>response. svc calls (barrier_prompt barrier) = Inr response \<longrightarrow>
         fst (analyze_barrier svc calls barrier) =
           Inr (if sublist ''capab'' (lower response) then ''capability''
                else if sublist ''opportun'' (lower response) then ''opportunity''
                else ''motivation''))"
proof (intro conjI allI impI)
  show "fst (analyze_barrier svc calls barrier)
      \<in> {Inr ''capability'', Inr ''opportunity'', Inr ''motivation''}"
    using parse_component_range
    by (cases "svc calls (barrier_prompt barrier)") (auto simp: analyze_barrier_cases)
next
  fix response
  assume "svc calls (barrier_prompt barrier) = Inr response"
  then show "fst (analyze_barrier svc calls barrier) =
           Inr (if sublist ''capab'' (lower response) then ''capability''
                else if sublist ''opportun'' (lower response) then ''opportunity''
                else ''motivation'')"
    by (simp only: analyze_barrier_cases fst_conv sum.case parse_component_sublist)
qed

theorem analyze_barrier_three_values_witness:
  \<open>answering ''  Opportunity.\<newline>'' 0 (barrier_prompt ''I have no time'') = Inr ''  Opportunity.\<newline>''
   \<and> fst (analyze_barrier (answering ''  Opportunity.\<newline>'') 0 ''I have no time'') = Inr ''opportunity''\<close>
  using analyze_barrier_three_values [of \<open>answering ''  Opportunity.\<newline>''\<close> 0 "''I have no time''"]
  by (simp add: answering_def lower_def lower_char_def sublist_Cons_right)

text \<open>
  Claim C6. When the request to the service fails, \<open>analyze_barrier\<close> returns
  \<^verbatim>\<open>motivation\<close> as a value, having made that one request and no other.
\<close>

theorem analyze_barrier_failure:
  assumes "svc calls (barrier_prompt barrier) = Inl e"
  shows "analyze_barrier svc calls barrier = (Inr ''motivation'', Suc calls)"
  using assms by (simp add: analyze_barrier_cases)

theorem analyze_barrier_failure_witness:
  \<open>failing (ServiceError ''quota'') 0 (barrier_prompt ''I'm too tired'') = Inl (ServiceError ''quota'')
   \<and> analyze_barrier (failing (ServiceError ''quota'')) 0 ''I'm too tired'' = (Inr ''motivation'', 1)\<close>
proof -
  have a: \<open>failing (ServiceError ''quota'') 0 (barrier_prompt ''I'm too tired'')
      = Inl (ServiceError ''quota'')\<close>
    by (simp add: failing_def)
  show ?thesis
    using a analyze_barrier_failure
              [of "failing (ServiceError ''quota'')" 0 \<open>''I'm too tired''\<close> "ServiceError ''quota''"]
    by simp
qed

section \<open>The generator's fallback\<close>

lemma generate_intervention_fallback:
  assumes "fst (generate_intervention_body svc render calls goal technique barrier) = Inl e"
  shows "fst (generate_intervention svc render calls goal technique barrier) =
         fallback_intervention goal technique"
  using assms
  by (cases "generate_intervention_body svc render calls goal technique barrier")
     (simp add: generate_intervention_def try_except_def)

text \<open>
  Claim C7. Two calls of \<open>generate_intervention\<close> with the same goal and technique
  whose \<^verbatim>\<open>try\<close> blocks both raise return the same thing, whatever the barrier texts
  (and whatever the service and the number of requests made before).
\<close>

theorem fallback_deterministic:
  assumes "fst (generate_intervention_body svc1 render1 calls1 goal technique barrier1) = Inl e1"
      and "fst (generate_intervention_body svc2 render2 calls2 goal technique barrier2) = Inl e2"
  shows "fst (generate_intervention svc1 render1 calls1 goal technique barrier1) =
         fst (generate_intervention svc2 render2 calls2 goal technique barrier2)"
  by (simp only: generate_intervention_fallback [OF assms(1)] generate_intervention_fallback [OF assms(2)])

lemma example_body_fails:
  "fst (generate_intervention_body (failing e) render calls goal example_A barrier) = Inl e"
  by (simp add: generate_intervention_body_def build_prompt_def example_A_def technique_A_def
      then_do_def generate_content_def failing_def)

theorem fallback_deterministic_witness:
  \<open>fst (generate_intervention_body (failing (ServiceError ''quota'')) unrendered 0
          ''exercise more'' example_A ''I'm too tired'') = Inl (ServiceError ''quota'')
   \<and> fst (generate_intervention_body (failing (ServiceError ''network'')) unrendered 3
          ''exercise more'' example_A ''I have no time'') = Inl (ServiceError ''network'')
   \<and> fst (generate_intervention (failing (ServiceError ''quota'')) unrendered 0
          ''exercise more'' example_A ''I'm too tired'')
     = fst (generate_intervention (failing (ServiceError ''network'')) unrendered 3
          ''exercise more'' example_A ''I have no time'')\<close>
  using fallback_deterministic [OF example_body_fails example_body_fails,
      of "ServiceError ''quota''" unrendered 0 "''exercise more''" \<open>''I'm too tired''\<close>
         "ServiceError ''network''" unrendered 3 "''I have no time''"]
    example_body_fails
  by simp

lemma fallback_A:
  \<open>fallback_intervention ''exercise more'' (technique_A theory_name duration evidence) =
     Inr (PDict
       [(''intervention_text'',
           PStr ''Let's work on exercise more. Try pairing exercise more with something fun.''),
        (''technique_name'', PStr ''A''),
        (''theory'', theory_name),
        (''duration_minutes'', duration),
        (''evidence'', evidence),
        (''target_component'', PStr ''motivation'')])\<close>
  by (simp add: fallback_intervention_def intervention_dict_def technique_A_def then_do_def replace_def)

lemma build_prompt_A:
  "\<exists>p. build_prompt render ''exercise more'' (technique_A theory_name duration evidence) barrier = Inr p"
  by (simp add: build_prompt_def technique_A_def then_do_def)

text \<open>
  Claim C4, as amended. With technique \<open>A\<close> of the example and the goal
  \<^verbatim>\<open>exercise more\<close>, a failing request makes \<open>generate_intervention\<close> return the
  filled template behind the fixed prefix:
  \<^verbatim>\<open>Let's work on exercise more. Try pairing exercise more with something fun.\<close>
\<close>

theorem example_fallback_text:
  assumes "\<forall>prompt. \<exists>e. svc calls prompt = Inl e"
  shows \<open>generate_intervention svc render calls ''exercise more''
           (technique_A theory_name duration evidence) barrier =
     (Inr (PDict
       [(''intervention_text'',
           PStr ''Let's work on exercise more. Try pairing exercise more with something fun.''),
        (''technique_name'', PStr ''A''),
        (''theory'', theory_name),
        (''duration_minutes'', duration),
        (''evidence'', evidence),
        (''target_component'', PStr ''motivation'')]), Suc calls)\<close>
proof -
  obtain p where p: "build_prompt render ''exercise more'' (technique_A theory_name duration evidence) barrier = Inr p"
    using build_prompt_A by blast
  obtain e where e: "svc calls p = Inl e" using assms by blast
  have "generate_intervention_body svc render calls ''exercise more''
           (technique_A theory_name duration evidence) barrier = (Inl e, Suc calls)"
    by (simp add: generate_intervention_body_def p e generate_content_def then_do_def)
  then show ?thesis
    by (simp add: generate_intervention_def try_except_def fallback_A)
qed

theorem example_fallback_text_witness:
  \<open>(\<forall>prompt. \<exists>e. failing (ServiceError ''quota'') 0 prompt = Inl e)
   \<and> generate_intervention (failing (ServiceError ''quota'')) unrendered 0 ''exercise more''
        example_A ''I'm too tired'' =
     (Inr (PDict
       [(''intervention_text'',
           PStr ''Let's work on exercise more. Try pairing exercise more with something fun.''),
        (''technique_name'', PStr ''A''),
        (''theory'', PStr ''Behavioral Economics''),
        (''duration_minutes'', PInt 5),
        (''evidence'', PStr ''field studies''),
        (''target_component'', PStr ''motivation'')]), 1)\<close>
proof -
  have a: "\<forall>prompt. \<exists>e. failing (ServiceError ''quota'') 0 prompt = Inl e"
    by (simp add: failing_def)
  show ?thesis
    using a example_fallback_text
              [of "failing (ServiceError ''quota'')" 0 unrendered "PStr ''Behavioral Economics''"
                  "PInt 5" "PStr ''field studies''" \<open>''I'm too tired''\<close>]
    by (simp add: example_A_def)
qed

text \<open>
  The text the claim names, the filled template alone, is not what the fallback returns.
\<close>

theorem example_fallback_text_counterexample:
  \<open>intervention_text_of
     (fst (generate_intervention (failing (ServiceError ''quota'')) unrendered 0 ''exercise more''
             example_A ''I'm too tired''))
   \<noteq> Inr (PStr ''Try pairing exercise more with something fun.'')\<close>
proof -
  have "fst (generate_intervention (failing (ServiceError ''quota'')) unrendered 0 ''exercise more''
             example_A ''I'm too tired'') = fallback_intervention ''exercise more'' example_A"
    by (rule generate_intervention_fallback [OF example_body_fails])
  then show ?thesis
    by (simp add: example_A_def fallback_A intervention_text_of_def then_do_def)
qed

section \<open>Numbers written and read back\<close>

lemma digit_char_facts:
  assumes "c \<in> set ''0123456789''"
  shows "is_digit c" and "\<not> is_space c" and "c \<noteq> CHR ''.''" and "c \<noteq> CHR ''e''"
    and "c \<noteq> CHR ''E''" and "c \<noteq> CHR ''_''" and "c \<noteq> CHR ''-''" and "c \<noteq> CHR ''+''"
    and "c \<noteq> CHR 0x0D" and "lower_char c = c" and "c \<noteq> CHR ''i''" and "c \<noteq> CHR ''n''"
proof -
  from assms have c: "c = CHR ''0'' \<or> c = CHR ''1'' \<or> c = CHR ''2'' \<or> c = CHR ''3'' \<or> c = CHR ''4''
      \<or> c = CHR ''5'' \<or> c = CHR ''6'' \<or> c = CHR ''7'' \<or> c = CHR ''8'' \<or> c = CHR ''9''"
    by simp
  from c show "is_digit c" by (elim disjE) (simp_all add: is_digit_def)
  from c show "\<not> is_space c" by (elim disjE) (simp_all add: is_space_def)
  from c show "lower_char c = c" by (elim disjE) (simp_all add: lower_char_def)
  from c show "c \<noteq> CHR ''.''" and "c \<noteq> CHR ''e''"
    and "c \<noteq> CHR ''E''" and "c \<noteq> CHR ''_''" and "c \<noteq> CHR ''-''" and "c \<noteq> CHR ''+''"
    and "c \<noteq> CHR 0x0D" and "c \<noteq> CHR ''i''" and "c \<noteq> CHR ''n''"
    by auto
qed

lemma nth_digit: "k < 10 \<Longrightarrow> ''0123456789'' ! k \<in> set ''0123456789''"
  by (rule nth_mem) simp

lemma digit_value_nth: "k < 10 \<Longrightarrow> digit_value (''0123456789'' ! k) = k"
proof -
  assume "k < 10"
  then have "k = 0 \<or> k = 1 \<or> k = 2 \<or> k = 3 \<or> k = 4 \<or> k = 5 \<or> k = 6 \<or> k = 7 \<or> k = 8 \<or> k = 9"
    by arith
  then show ?thesis by (auto simp: digit_value_def)
qed

lemma show_nat_digits: "set (show_nat n) \<subseteq> set ''0123456789''"
proof (induction n rule: show_nat.induct)
  case (1 n)
  show ?case
  proof (cases "n < 10")
    case True
    then have "show_nat n = [''0123456789'' ! n]" by (subst show_nat.simps) simp
    with nth_digit [OF True] show ?thesis by simp
  next
    case False
    then have eq: "show_nat n = show_nat (n div 10) @ [''0123456789'' ! (n mod 10)]"
      by (subst show_nat.simps) simp
    have "n mod 10 < 10" by simp
    from nth_digit [OF this] 1 [OF False] show ?thesis unfolding eq by simp
  qed
qed

lemma show_nat_nonempty: "show_nat n \<noteq> []"
  by (subst show_nat.simps) simp

lemma digits_value_snoc:
  "is_digit d \<Longrightarrow> digits_value (xs @ [d]) = 10 * digits_value xs + digit_value d"
  by (simp add: digits_value_def)

lemma digits_value_show_nat: "digits_value (show_nat n) = n"
proof (induction n rule: show_nat.induct)
  case (1 n)
  show ?case
  proof (cases "n < 10")
    case True
    then have "show_nat n = [''0123456789'' ! n]" by (subst show_nat.simps) simp
    with True show ?thesis
      by (simp add: digits_value_def digit_char_facts(1) [OF nth_digit] digit_value_nth)
  next
    case False
    then have eq: "show_nat n = show_nat (n div 10) @ [''0123456789'' ! (n mod 10)]"
      by (subst show_nat.simps) simp
    have m: "n mod 10 < 10" by simp
    show ?thesis
      unfolding eq
      by (simp only: digits_value_snoc [OF digit_char_facts(1) [OF nth_digit [OF m]]]
          1 [OF False] digit_value_nth [OF m]) simp
  qed
qed

lemma digitpart_digits:
  "xs \<noteq> [] \<Longrightarrow> set xs \<subseteq> set ''0123456789'' \<Longrightarrow> digitpart xs"
proof (induction xs rule: digitpart.induct)
  case 1
  then show ?case by simp
next
  case (2 c)
  then show ?case by (simp add: digit_char_facts(1))
next
  case (3 c d ds)
  from 3(4) have c: "c \<in> set ''0123456789''" and d: "d \<in> set ''0123456789''"
    and ds: "set (d # ds) \<subseteq> set ''0123456789''" by auto
  from digit_char_facts(6) [OF d] 3(2) ds have "digitpart (d # ds)" by simp
  with digit_char_facts(1) [OF c] digit_char_facts(6) [OF d] show ?case by simp
qed

lemma dropWhile_hd: "s \<noteq> [] \<Longrightarrow> \<not> P (hd s) \<Longrightarrow> dropWhile P s = s"
  by (cases s) simp_all

lemma strip_id:
  assumes "s \<noteq> []" and "\<not> is_space (hd s)" and "\<not> is_space (last s)"
  shows "strip s = s"
proof -
  have "dropWhile is_space s = s" using assms by (simp add: dropWhile_hd)
  moreover have "dropWhile is_space (rev s) = rev s"
    using assms by (simp add: dropWhile_hd hd_rev)
  ultimately show ?thesis by (simp add: strip_def)
qed

lemma split_on_absent: "\<forall>c\<in>set s. \<not> P c \<Longrightarrow> split_on P s = (s, None)"
proof -
  assume a: "\<forall>c\<in>set s. \<not> P c"
  then have "takeWhile (\<lambda>c. \<not> P c) s = s" by (simp add: takeWhile_eq_all_conv)
  moreover from a have "dropWhile (\<lambda>c. \<not> P c) s = []" by (simp add: dropWhile_eq_Nil_conv)
  ultimately show ?thesis by (simp only: split_on_def list.case)
qed

lemma parse_number_digits:
  assumes "ds \<noteq> []" and "set ds \<subseteq> set ''0123456789''"
  shows "parse_number ds = Some (of_nat (digits_value ds))"
proof -
  have noe: "split_on (\<lambda>c. c = CHR ''e'' \<or> c = CHR ''E'') ds = (ds, None)"
    by (rule split_on_absent) (use assms(2) digit_char_facts(4,5) in blast)
  have nodot: "split_on (\<lambda>c. c = CHR ''.'') ds = (ds, None)"
    by (rule split_on_absent) (use assms(2) digit_char_facts(3) in blast)
  show ?thesis
    by (simp only: parse_number_def parse_mantissa_def noe nodot prod.case option.case
        digitpart_digits [OF assms] if_True)
qed

lemma lower_digits: "set ds \<subseteq> set ''0123456789'' \<Longrightarrow> lower ds = ds"
  unfolding lower_def by (rule map_idI) (auto simp: digit_char_facts(10))

lemma py_float_digits:
  assumes "ds \<noteq> []" and "set ds \<subseteq> set ''0123456789''"
  shows "py_float ds = Inr (Finite (of_nat (digits_value ds)))"
proof -
  have h: "hd ds \<in> set ''0123456789''" and l: "last ds \<in> set ''0123456789''"
    using assms by (auto simp: subset_iff)
  have s: "strip ds = ds"
    by (rule strip_id [OF assms(1) digit_char_facts(2) [OF h] digit_char_facts(2) [OF l]])
  have sign: "hd ds \<noteq> CHR ''-''" "hd ds \<noteq> CHR ''+''"
    using digit_char_facts(7,8) [OF h] by simp_all
  have special: "ds \<noteq> ''inf''" "ds \<noteq> ''infinity''" "ds \<noteq> ''nan''"
    using digit_char_facts(11,12) [OF h] by auto
  show ?thesis
    by (simp add: py_float_def Let_def s sign special lower_digits [OF assms(2)]
        parse_number_digits [OF assms])
qed

lemma py_float_minus_digits:
  assumes "ds \<noteq> []" and "set ds \<subseteq> set ''0123456789''"
  shows "py_float (CHR ''-'' # ds) = Inr (Finite (- of_nat (digits_value ds)))"
proof -
  have h: "hd ds \<in> set ''0123456789''" and l: "last ds \<in> set ''0123456789''"
    using assms by (auto simp: subset_iff)
  have s: "strip (CHR ''-'' # ds) = CHR ''-'' # ds"
  proof (rule strip_id)
    show "\<not> is_space (last (CHR ''-'' # ds))"
      using assms(1) digit_char_facts(2) [OF l] by simp
  qed (simp_all add: is_space_def)
  have special: "ds \<noteq> ''inf''" "ds \<noteq> ''infinity''" "ds \<noteq> ''nan''"
    using digit_char_facts(11,12) [OF h] by auto
  show ?thesis
    by (simp add: py_float_def Let_def s special lower_digits [OF assms(2)]
        parse_number_digits [OF assms])
qed

lemma py_float_show_int: "py_float (show_int i) = Inr (Finite (of_int i))"
proof (cases "i < 0")
  case True
  then have "of_nat (nat (- i)) = - (of_int i :: rat)" by simp
  with True show ?thesis
    by (simp add: show_int_def py_float_minus_digits [OF show_nat_nonempty show_nat_digits]
        digits_value_show_nat)
next
  case False
  then have "of_nat (nat i) = (of_int i :: rat)" by simp
  with False show ?thesis
    by (simp add: show_int_def py_float_digits [OF show_nat_nonempty show_nat_digits]
        digits_value_show_nat)
qed

lemma universal_newlines_id: "CHR 0x0D \<notin> set s \<Longrightarrow> universal_newlines s = s"
  by (induction s rule: universal_newlines.induct) auto

lemma universal_newlines_show_int: "universal_newlines (show_int i) = show_int i"
proof (rule universal_newlines_id)
  have "CHR 0x0D \<notin> set (show_nat n)" for n
    using show_nat_digits [of n] digit_char_facts(9) by blast
  then show "CHR 0x0D \<notin> set (show_int i)" by (simp add: show_int_def)
qed

lemma universal_newlines_has_newline:
  "CHR 0x0D \<in> set s \<Longrightarrow> CHR 0x0A \<in> set (universal_newlines s)"
  by (induction s rule: universal_newlines.induct) (auto split: if_splits)

lemma lower_char_control: "lower_char (CHR 0x0D) = CHR 0x0D" "lower_char (CHR 0x0A) = CHR 0x0A"
  by (simp_all add: lower_char_def)

lemma yes_maybe_universal_newlines:
  "(lower (universal_newlines w) \<in> set [''yes'', ''maybe'']) = (lower w \<in> set [''yes'', ''maybe''])"
proof (cases "CHR 0x0D \<in> set w")
  case False
  then show ?thesis by (simp add: universal_newlines_id)
next
  case True
  then have "CHR 0x0D \<in> set (lower w)"
    unfolding lower_def using lower_char_control(1) by (metis image_eqI set_map)
  then have a: "lower w \<notin> set [''yes'', ''maybe'']" by auto
  from True have "CHR 0x0A \<in> set (universal_newlines w)"
    by (rule universal_newlines_has_newline)
  then have "CHR 0x0A \<in> set (lower (universal_newlines w))"
    unfolding lower_def using lower_char_control(2) by (metis image_eqI set_map)
  then have b: "lower (universal_newlines w) \<notin> set [''yes'', ''maybe'']" by auto
  from a b show ?thesis by simp
qed

section \<open>Appending to the log\<close>

lemma save_feedback_ok:
  "save_feedback None now fb file = (True, Some (rows_of file @ [feedback_row now fb]))"
  by (simp add: save_feedback_def append_row_def)

lemma save_feedback_fault: "save_feedback (Some e) now fb file = (False, file)"
  by (simp add: save_feedback_def append_row_def)

text \<open>
  Claim C8. Whatever the log holds, after \<open>save_feedback\<close> the rows it held are a
  prefix of the rows it holds; the call reports success exactly when the write did not
  fail, and then the log has grown by one row, the last, whose first cell is the clock
  reading; a failed write leaves the log as it was.
\<close>

theorem save_feedback_appends:
  assumes "save_feedback fault now fb file = (ok, file')"
  shows "prefix (rows_of file) (rows_of file')
         \<and> ok = (fault = None)
         \<and> (if ok then rows_of file' = rows_of file @ [feedback_row now fb]
                      \<and> hd (feedback_row now fb) = now
             else file' = file)"
proof (cases fault)
  case None
  with assms show ?thesis by (auto simp: save_feedback_ok rows_of_def feedback_row_def)
next
  case (Some e)
  with assms show ?thesis by (auto simp: save_feedback_fault)
qed

theorem save_feedback_appends_witness:
  "save_feedback None ''2026-01-05 09:00:00'' (example_feedback 4 ''Yes'') (Some [header])
     = (True, Some [header, feedback_row ''2026-01-05 09:00:00'' (example_feedback 4 ''Yes'')])
   \<and> prefix [header] [header, feedback_row ''2026-01-05 09:00:00'' (example_feedback 4 ''Yes'')]
   \<and> hd (feedback_row ''2026-01-05 09:00:00'' (example_feedback 4 ''Yes'')) = ''2026-01-05 09:00:00''"
proof -
  have a: "save_feedback None ''2026-01-05 09:00:00'' (example_feedback 4 ''Yes'') (Some [header])
     = (True, Some [header, feedback_row ''2026-01-05 09:00:00'' (example_feedback 4 ''Yes'')])"
    by (simp add: save_feedback_def append_row_def rows_of_def)
  show ?thesis
    using a save_feedback_appends [OF a] by (simp add: rows_of_def)
qed

section \<open>Recording, then aggregating\<close>

lemma save_all_rows:
  "save_all entries (Some rows) = Some (rows @ map (\<lambda>(now, fb). feedback_row now fb) entries)"
  by (induction entries arbitrary: rows) (auto simp: save_feedback_ok rows_of_def)

lemma header_read: "map universal_newlines header = header"
  by (simp add: header_def)

lemma dict_reader_saved:
  "dict_reader (map (map universal_newlines)
       (header # map (\<lambda>(now, fb). feedback_row now fb) entries))
   = map (\<lambda>(now, fb). saved_row now fb) entries"
proof -
  have "filter (\<lambda>r. r \<noteq> []) (map (map universal_newlines)
          (map (\<lambda>(now, fb). feedback_row now fb) entries))
        = map (map universal_newlines) (map (\<lambda>(now, fb). feedback_row now fb) entries)"
    by (rule filter_True) (auto simp: feedback_row_def)
  then show ?thesis
    by (simp add: dict_reader_def header_read saved_row_def comp_def case_prod_unfold)
qed

lemma saved_row_get:
  "row_get (saved_row now fb) ''rating'' = Inr (Some (universal_newlines (show_int (rating fb))))"
  "row_get (saved_row now fb) ''would_try'' = Inr (Some (universal_newlines (would_try fb)))"
  "row_get (saved_row now fb) ''technique_used'' = Inr (Some (universal_newlines (technique_name fb)))"
  "row_get (saved_row now fb) ''target_component'' = Inr (Some (universal_newlines (target_component fb)))"
  by (simp_all add: saved_row_def feedback_row_def header_def row_get_def)

lemma saved_row_rating: "rating_of (saved_row now fb) = Inr (Finite (of_int (rating fb)))"
  by (simp only: rating_of_def saved_row_get then_do_def sum.case option.case
      universal_newlines_show_int py_float_show_int)

lemma saved_row_would_try:
  "would_try_of (saved_row now fb) = Inr (lower (would_try fb) \<in> set [''yes'', ''maybe''])"
  by (simp only: would_try_of_def saved_row_get then_do_def sum.case option.case
      yes_maybe_universal_newlines)

lemma sum_ratings_map:
  assumes "\<And>x. x \<in> set xs \<Longrightarrow> rating_of (f x) = Inr (Finite (of_int (g x)))"
  shows "sum_ratings (map f xs) (Finite a) = Inr (Finite (a + of_int (sum_list (map g xs))))"
  using assms by (induction xs arbitrary: a) (auto simp: then_do_def)

lemma count_would_try_map:
  assumes "\<And>x. x \<in> set xs \<Longrightarrow> would_try_of (f x) = Inr (P x)"
  shows "count_would_try (map f xs) n = Inr (n + length (filter P xs))"
  using assms by (induction xs arbitrary: n) (auto simp: then_do_def)

lemma sum_ratings_saved:
  "sum_ratings (map (\<lambda>(now, fb). saved_row now fb) entries) (Finite 0)
   = Inr (Finite (of_int (sum_list (map (\<lambda>(now, fb). rating fb) entries))))"
proof -
  have "sum_ratings (map (\<lambda>(now, fb). saved_row now fb) entries) (Finite 0)
   = Inr (Finite (0 + of_int (sum_list (map (\<lambda>(now, fb). rating fb) entries))))"
    by (rule sum_ratings_map) (auto simp: saved_row_rating)
  then show ?thesis by simp
qed

lemma count_would_try_saved:
  "count_would_try (map (\<lambda>(now, fb). saved_row now fb) entries) 0
   = Inr (length (filter (\<lambda>(now, fb). lower (would_try fb) \<in> set [''yes'', ''maybe'']) entries))"
proof -
  have "count_would_try (map (\<lambda>(now, fb). saved_row now fb) entries) 0
   = Inr (0 + length (filter (\<lambda>(now, fb). lower (would_try fb) \<in> set [''yes'', ''maybe'']) entries))"
    by (rule count_would_try_map) (simp add: case_prod_unfold saved_row_would_try del: set_simps)
  then show ?thesis by simp
qed

lemma technique_ratings_saved:
  "\<exists>r. technique_ratings (map (\<lambda>(now, fb). saved_row now fb) entries) ratings = Inr r"
  by (induction entries arbitrary: ratings) (auto simp: saved_row_rating saved_row_get then_do_def)

lemma component_count_saved:
  "\<exists>c. component_count (map (\<lambda>(now, fb). saved_row now fb) entries) counts = Inr c"
  by (induction entries arbitrary: counts) (auto simp: saved_row_get then_do_def)

lemma round_trip_any_case:
  assumes "entries \<noteq> []"
  shows "\<exists>st. get_statistics None (save_all entries (Some [header])) = Inr (Some st)
     \<and> total_responses st = length entries
     \<and> average_rating st =
         Finite (of_int (sum_list (map (\<lambda>(now, fb). rating fb) entries)) / of_nat (length entries))
     \<and> would_try_percent st =
         Finite (of_nat (length (filter
                   (\<lambda>(now, fb). lower (would_try fb) \<in> set [''yes'', ''maybe'']) entries))
                 / of_nat (length entries) * 100)"
proof -
  obtain r where r: "technique_ratings (map (\<lambda>(now, fb). saved_row now fb) entries) [] = Inr r"
    using technique_ratings_saved by blast
  obtain c where c: "component_count (map (\<lambda>(now, fb). saved_row now fb) entries) [] = Inr c"
    using component_count_saved by blast
  have rd: "read_csv None (header # map (\<lambda>(now, fb). feedback_row now fb) entries)
      = Inr (map (map universal_newlines) (header # map (\<lambda>(now, fb). feedback_row now fb) entries))"
    by (simp only: read_csv_def option.case)
  have body: "get_statistics_body None (header # map (\<lambda>(now, fb). feedback_row now fb) entries)
      = Inr (Some \<lparr>
             total_responses = length entries,
             average_rating = Finite (of_int (sum_list (map (\<lambda>(now, fb). rating fb) entries)) / of_nat (length entries)),
             would_try_percent = Finite (of_nat (length (filter
                   (\<lambda>(now, fb). lower (would_try fb) \<in> set [''yes'', ''maybe'']) entries))
                 / of_nat (length entries) * 100),
             technique_performance = technique_avg r,
             component_distribution = c \<rparr>)"
    by (simp only: get_statistics_body_def rd then_do_def sum.case Let_def dict_reader_saved
        sum_ratings_saved count_would_try_saved r c float_div.simps length_map)
       (simp add: assms)
  show ?thesis
    by (simp only: save_all_rows append_Cons append_Nil get_statistics_def option.case body
        try_except_def sum.case) simp
qed

lemma yes_maybe_enum:
  "w \<in> {''Yes'', ''Maybe'', ''No''} \<Longrightarrow>
     (lower w \<in> set [''yes'', ''maybe'']) = (w = ''Yes'' \<or> w = ''Maybe'')"
  by (auto simp: lower_def lower_char_def)

text \<open>
  Claim C2. From the log the constructor creates, after one or more successful calls
  of \<open>save_feedback\<close> with answers among \<^verbatim>\<open>Yes\<close>, \<^verbatim>\<open>Maybe\<close> and \<^verbatim>\<open>No\<close>,
  \<open>get_statistics\<close> returns statistics whose count is the number of calls, whose
  average rating is the mean of the ratings, and whose percentage is the number of
  \<^verbatim>\<open>Yes\<close> and \<^verbatim>\<open>Maybe\<close> answers over the count, times 100. The witness is the
  example of the claim: 4 with \<^verbatim>\<open>Yes\<close>, then 2 with \<^verbatim>\<open>No\<close>, gives 2, 3 and 50.
\<close>

theorem feedback_round_trip:
  assumes "initialize_csv None None = Inr empty_log"
      and "entries \<noteq> []"
      and "\<forall>(now, fb)\<in>set entries. would_try fb \<in> {''Yes'', ''Maybe'', ''No''}"
  shows "\<exists>st. get_statistics None (save_all entries empty_log) = Inr (Some st)
     \<and> total_responses st = length entries
     \<and> average_rating st =
         Finite (of_int (sum_list (map (\<lambda>(now, fb). rating fb) entries)) / of_nat (length entries))
     \<and> would_try_percent st =
         Finite (of_nat (length (filter
                   (\<lambda>(now, fb). would_try fb = ''Yes'' \<or> would_try fb = ''Maybe'') entries))
                 / of_nat (length entries) * 100)"
proof -
  from assms(1) have log: "empty_log = Some [header]" by (simp add: initialize_csv_def)
  have "filter (\<lambda>(now, fb). lower (would_try fb) \<in> set [''yes'', ''maybe'']) entries
      = filter (\<lambda>(now, fb). would_try fb = ''Yes'' \<or> would_try fb = ''Maybe'') entries"
    by (rule filter_cong [OF refl]) (use assms(3) yes_maybe_enum in fastforce)
  with round_trip_any_case [OF assms(2)] show ?thesis unfolding log by simp
qed

theorem feedback_round_trip_witness:
  "initialize_csv None None = Inr (Some [header])
   \<and> example_entries \<noteq> []
   \<and> list_all (\<lambda>(now, fb). would_try fb \<in> {''Yes'', ''Maybe'', ''No''}) example_entries
   \<and> get_statistics None (save_all example_entries (Some [header])) =
       Inr (Some \<lparr> total_responses = 2, average_rating = Finite 3, would_try_percent = Finite 50,
         technique_performance = [(Some ''Temptation Bundling'', Finite 3)],
         component_distribution = [(Some ''motivation'', 2)] \<rparr>)"
proof -
  have a: "initialize_csv None None = Inr (Some [header])"
    by (simp add: initialize_csv_def)
  have b: "example_entries \<noteq> []"
    by (simp add: example_entries_def)
  have c: "\<forall>(now, fb)\<in>set example_entries. would_try fb \<in> {''Yes'', ''Maybe'', ''No''}"
    by (simp add: example_entries_def example_feedback_def)
  have d: "get_statistics None (save_all example_entries (Some [header])) =
       Inr (Some \<lparr> total_responses = 2, average_rating = Finite 3, would_try_percent = Finite 50,
         technique_performance = [(Some ''Temptation Bundling'', Finite 3)],
         component_distribution = [(Some ''motivation'', 2)] \<rparr>)"
    by code_simp
  show ?thesis
    using a b c d feedback_round_trip [OF a b c] by (simp add: list_all_iff)
qed

lemma no_feedback_no_statistics: "get_statistics None (Some [header]) = Inr None"
  by (simp add: get_statistics_def get_statistics_body_def read_csv_def then_do_def
      dict_reader_def try_except_def header_def)

section \<open>One bad rating spoils the statistics\<close>

lemma sum_ratings_raises:
  "d \<in> set rows \<Longrightarrow> rating_of d = Inl e \<Longrightarrow> \<exists>e'. sum_ratings rows acc = Inl e'"
proof (induction rows arbitrary: acc)
  case Nil
  then show ?case by simp
next
  case (Cons r rows)
  show ?case
  proof (cases "rating_of r")
    case (Inl e')
    then show ?thesis by (simp add: then_do_def)
  next
    case (Inr x)
    with Cons.prems have "d \<in> set rows" by auto
    from Cons.IH [OF this Cons.prems(2)] Inr show ?thesis by (simp add: then_do_def)
  qed
qed

lemma get_statistics_raises:
  assumes "d \<in> set (dict_reader (map (map universal_newlines) content))"
      and "rating_of d = Inl e"
  shows "get_statistics fault (Some content) = Inr None"
proof (cases fault)
  case (Some e')
  then show ?thesis
    by (simp add: get_statistics_def get_statistics_body_def read_csv_def then_do_def try_except_def)
next
  case None
  from assms(1) have ne: "dict_reader (map (map universal_newlines) content) \<noteq> []" by auto
  obtain e' where "sum_ratings (dict_reader (map (map universal_newlines) content)) (Finite 0) = Inl e'"
    using sum_ratings_raises [OF assms] by blast
  with None ne show ?thesis
    by (simp add: get_statistics_def get_statistics_body_def read_csv_def then_do_def try_except_def)
qed

text \<open>
  Claim C9. When one of the rows \<^verbatim>\<open>csv.DictReader\<close> yields has a rating that
  \<^verbatim>\<open>float\<close> rejects, \<open>get_statistics\<close> returns \<^verbatim>\<open>None\<close> for the whole log, as it
  does for a log without rows.
\<close>

theorem get_statistics_bad_rating:
  assumes "d \<in> set (dict_reader (map (map universal_newlines) content))"
      and "row_get d ''rating'' = Inr (Some s)"
      and "py_float s = Inl e"
  shows "get_statistics fault (Some content) = Inr None"
proof -
  from assms(2,3) have "rating_of d = Inl e" by (simp add: rating_of_def then_do_def)
  with assms(1) show ?thesis by (rule get_statistics_raises)
qed

theorem get_statistics_bad_rating_witness:
  "zip_row header bad_row \<in> set (dict_reader (map (map universal_newlines)
       [header, feedback_row ''2026-01-05 09:00:00'' (example_feedback 4 ''Yes''), bad_row]))
   \<and> row_get (zip_row header bad_row) ''rating'' = Inr (Some ''four'')
   \<and> py_float ''four'' = Inl ValueError
   \<and> get_statistics None
        (Some [header, feedback_row ''2026-01-05 09:00:00'' (example_feedback 4 ''Yes''), bad_row])
       = Inr None
   \<and> get_statistics None
        (Some [header, feedback_row ''2026-01-05 09:00:00'' (example_feedback 4 ''Yes'')])
       = Inr (Some \<lparr> total_responses = 1, average_rating = Finite 4, would_try_percent = Finite 100,
           technique_performance = [(Some ''Temptation Bundling'', Finite 4)],
           component_distribution = [(Some ''motivation'', 1)] \<rparr>)"
proof -
  have a: "zip_row header bad_row \<in> set (dict_reader (map (map universal_newlines)
       [header, feedback_row ''2026-01-05 09:00:00'' (example_feedback 4 ''Yes''), bad_row]))"
    by code_simp
  have b: "row_get (zip_row header bad_row) ''rating'' = Inr (Some ''four'')"
    by code_simp
  have c: "py_float ''four'' = Inl ValueError"
    by code_simp
  have d: "get_statistics None
        (Some [header, feedback_row ''2026-01-05 09:00:00'' (example_feedback 4 ''Yes'')])
       = Inr (Some \<lparr> total_responses = 1, average_rating = Finite 4, would_try_percent = Finite 100,
           technique_performance = [(Some ''Temptation Bundling'', Finite 4)],
           component_distribution = [(Some ''motivation'', 1)] \<rparr>)"
    by code_simp
  show ?thesis
    using a b c d get_statistics_bad_rating [OF a b c, of None] by simp
qed

end
